theory Spec2Isabelle
  imports Complex_Main "HOL-Library.AList"
begin

section \<open>JavaScript values\<close>

text \<open>
  The client of \<^verbatim>\<open>lib/client.js\<close> inspects its arguments with \<^verbatim>\<open>typeof\<close>,
  truthiness, numeric comparison and \<^verbatim>\<open>% 1\<close>. Its arguments are modelled as plain data
  values: \<^verbatim>\<open>undefined\<close>, \<^verbatim>\<open>null\<close>, booleans, numbers, strings, arrays and
  objects (the values \<^verbatim>\<open>JSON.stringify\<close> serialises without raising).

  A number is \<^verbatim>\<open>NaN\<close>, an infinity or a finite value, the finite ones as exact
  rationals. Every IEEE double is such a rational, and the code only compares numbers and
  takes remainders by 1, which are exact on doubles; \<^verbatim>\<open>-0\<close> is not told apart from
  \<^verbatim>\<open>0\<close> (both are falsy and both are \<^verbatim>\<open>== 0\<close>).
\<close>

datatype jsnum = NaN | PosInf | NegInf | Fin rat

datatype jsval =
    JUndefined
  | JNull
  | JBool bool
  | JNum jsnum
  | JStr string
  | JArr "jsval list"
  | JObj "(string \<times> jsval) list"

fun typeof :: "jsval \<Rightarrow> string" where
  "typeof JUndefined = ''undefined''"
| "typeof JNull = ''object''"
| "typeof (JBool _) = ''boolean''"
| "typeof (JNum _) = ''number''"
| "typeof (JStr _) = ''string''"
| "typeof (JArr _) = ''object''"
| "typeof (JObj _) = ''object''"

fun isArray :: "jsval \<Rightarrow> bool" where
  "isArray (JArr _) = True"
| "isArray _ = False"

text \<open>Truthiness (\<^verbatim>\<open>if (v)\<close>, \<^verbatim>\<open>!v\<close>, \<^verbatim>\<open>v ? a : b\<close>).\<close>

fun truthy :: "jsval \<Rightarrow> bool" where
  "truthy JUndefined = False"
| "truthy JNull = False"
| "truthy (JBool b) = b"
| "truthy (JNum NaN) = False"
| "truthy (JNum (Fin r)) = (r \<noteq> 0)"
| "truthy (JNum _) = True"
| "truthy (JStr s) = (s \<noteq> [])"
| "truthy (JArr _) = True"
| "truthy (JObj _) = True"

text \<open>Numeric \<^verbatim>\<open><\<close>, \<^verbatim>\<open>></\<close>, \<^verbatim>\<open>!=\<close> and \<^verbatim>\<open>%\<close>: every comparison with
  \<^verbatim>\<open>NaN\<close> is false, except \<^verbatim>\<open>!=\<close>, which is true.\<close>

fun js_lt :: "jsnum \<Rightarrow> jsnum \<Rightarrow> bool" where
  "js_lt NaN _ = False"
| "js_lt _ NaN = False"
| "js_lt (Fin a) (Fin b) = (a < b)"
| "js_lt _ NegInf = False"
| "js_lt NegInf _ = True"
| "js_lt PosInf _ = False"
| "js_lt (Fin a) PosInf = True"

definition js_gt :: "jsnum \<Rightarrow> jsnum \<Rightarrow> bool" where
  "js_gt a b = js_lt b a"

fun js_neq :: "jsnum \<Rightarrow> jsnum \<Rightarrow> bool" where
  "js_neq NaN _ = True"
| "js_neq _ NaN = True"
| "js_neq a b = (a \<noteq> b)"

definition trunc :: "rat \<Rightarrow> int" where
  "trunc r = (if 0 \<le> r then \<lfloor>r\<rfloor> else \<lceil>r\<rceil>)"

text \<open>The remainder has the sign of the dividend (truncated division).\<close>

fun js_rem :: "jsnum \<Rightarrow> jsnum \<Rightarrow> jsnum" where
  "js_rem NaN _ = NaN"
| "js_rem _ NaN = NaN"
| "js_rem PosInf _ = NaN"
| "js_rem NegInf _ = NaN"
| "js_rem (Fin a) (Fin b) = (if b = 0 then NaN else Fin (a - b * of_int (trunc (a / b))))"
| "js_rem (Fin a) _ = Fin a"

subsection \<open>Strings of numbers and values\<close>

definition digit_char :: "nat \<Rightarrow> char" where
  "digit_char d = ''0123456789'' ! d"

fun show_nat :: "nat \<Rightarrow> string" where
  "show_nat n = (if n < 10 then [digit_char n] else show_nat (n div 10) @ [digit_char (n mod 10)])"

declare show_nat.simps [simp del]

text \<open>
  \<^verbatim>\<open>Number.prototype.toString\<close>. An integral value below \<^verbatim>\<open>1e21\<close> in magnitude
  prints as its decimal digits. The digits of any other finite number are those of the
  shortest decimal that reads back as the same IEEE double; they are outside this model
  (the empty string stands for them) and the client never asks for them: the only
  numbers it prints are a validated port and an HTTP status.
\<close>

fun num_toString :: "jsnum \<Rightarrow> string" where
  "num_toString NaN = ''NaN''"
| "num_toString PosInf = ''Infinity''"
| "num_toString NegInf = ''-Infinity''"
| "num_toString (Fin r) =
     (if of_int \<lfloor>r\<rfloor> = r \<and> \<bar>r\<bar> < 10 ^ 21
      then (if r < 0 then ''-'' else []) @ show_nat (nat \<bar>\<lfloor>r\<rfloor>\<bar>)
      else [])"

text \<open>String conversion of a value, as the \<^verbatim>\<open>+\<close> of a string and a value performs it.
  An array joins its elements with commas, \<^verbatim>\<open>null\<close> and \<^verbatim>\<open>undefined\<close> elements
  as empty strings.\<close>

fun to_string :: "jsval \<Rightarrow> string"
  and join_elems :: "jsval list \<Rightarrow> string" where
  "to_string JUndefined = ''undefined''"
| "to_string JNull = ''null''"
| "to_string (JBool b) = (if b then ''true'' else ''false'')"
| "to_string (JNum n) = num_toString n"
| "to_string (JStr s) = s"
| "to_string (JArr xs) = join_elems xs"
| "to_string (JObj _) = ''[object Object]''"
| "join_elems [] = []"
| "join_elems (x # xs) =
     (if x = JUndefined \<or> x = JNull then [] else to_string x)
      @ (if xs = [] then [] else '','' @ join_elems xs)"

subsection \<open>Objects\<close>

text \<open>An object is an association list; a property that is absent reads as
  \<^verbatim>\<open>undefined\<close>, and so does a property of a primitive or of an array (none of the
  names the client reads is an own property of those).\<close>

fun get_prop :: "jsval \<Rightarrow> string \<Rightarrow> jsval" where
  "get_prop (JObj kvs) k = (case map_of kvs k of None \<Rightarrow> JUndefined | Some v \<Rightarrow> v)"
| "get_prop _ k = JUndefined"

fun set_prop :: "jsval \<Rightarrow> string \<Rightarrow> jsval \<Rightarrow> jsval" where
  "set_prop (JObj kvs) k v = JObj (AList.update k v kvs)"
| "set_prop x k v = x"

text \<open>The copy \<^verbatim>\<open>{ ...options }\<close>, taken of a value whose \<^verbatim>\<open>typeof\<close> is
  \<^verbatim>\<open>'object'\<close> and that is no array: an object gives its own properties and
  \<^verbatim>\<open>null\<close> gives the empty object.\<close>

fun spread :: "jsval \<Rightarrow> jsval" where
  "spread (JObj kvs) = JObj kvs"
| "spread _ = JObj []"

section \<open>Errors and results\<close>

text \<open>
  \<^verbatim>\<open>throw new Error(msg)\<close> is \<open>Inl (Error msg)\<close>; the class
  \<^verbatim>\<open>ClientRequestError\<close> carries the message and the \<^verbatim>\<open>statusCode\<close> field.
  \<open>TypeError\<close> is what a method call on \<^verbatim>\<open>undefined\<close> or \<^verbatim>\<open>null\<close> raises, and
  \<open>TransportError\<close> stands for whatever the HTTP library rejects with.
\<close>

datatype js_error =
    Error string
  | ClientRequestError string nat
  | TypeError string
  | TransportError string

definition bind_result :: "('e + 'a) \<Rightarrow> ('a \<Rightarrow> 'e + 'b) \<Rightarrow> 'e + 'b" where
  "bind_result r f = (case r of Inl e \<Rightarrow> Inl e | Inr x \<Rightarrow> f x)"

section \<open>Construction\<close>

text \<open>The private variables of the closure \<^verbatim>\<open>Client\<close>.\<close>

record client =
  url_base :: string
  api_key :: jsval
  default_channel :: jsval
  timeout :: jsval

text \<open>
  \<^verbatim>\<open>
  let url_base = 'http' + (client_options.useSsl ? 's' : '') + '://' + client_options.host
               + ':' + client_options.port.toString() + '/';
  let api_key = client_options.apiKey;
  let default_channel = client_options.defaultChannel;
  let timeout = client_options.timeout;
  \<close>
\<close>

definition Client :: "jsval \<Rightarrow> js_error + client" where
  "Client client_options =
     (let port = get_prop client_options ''port'' in
      if port = JUndefined \<or> port = JNull
      then Inl (TypeError ''Cannot read properties of undefined'')
      else Inr \<lparr>
        url_base = ''http'' @ (if truthy (get_prop client_options ''useSsl'') then ''s'' else [])
                   @ ''://'' @ to_string (get_prop client_options ''host'')
                   @ '':'' @ to_string port @ ''/'',
        api_key = get_prop client_options ''apiKey'',
        default_channel = get_prop client_options ''defaultChannel'',
        timeout = get_prop client_options ''timeout'' \<rparr>)"

text \<open>The checks of \<^verbatim>\<open>create\<close>, one definition for each commented block of the source,
  each returning the (possibly updated) copy of the options or the error thrown.\<close>

definition check_options :: "jsval \<Rightarrow> js_error + jsval" where
  "check_options options =
     (if typeof options \<noteq> ''object'' \<or> isArray options then Inl (Error ''Invalid options'')
      else Inr (spread options))"

text \<open>\<^verbatim>\<open>typeof v !== 'string' || v.length == 0\<close>\<close>

definition not_string_or_empty :: "jsval \<Rightarrow> bool" where
  "not_string_or_empty v = (case v of JStr s \<Rightarrow> length s = 0 | _ \<Rightarrow> True)"

definition check_host :: "jsval \<Rightarrow> js_error + jsval" where
  "check_host options =
     (if not_string_or_empty (get_prop options ''host'') then Inl (Error ''Invalid host'')
      else Inr options)"

text \<open>The two tests of the port raise the same error: \<^verbatim>\<open>typeof options.port !== 'number'\<close>,
  then \<^verbatim>\<open>options.port < 1 || options.port > 65535 || (options.port % 1) != 0\<close>.\<close>

definition check_port :: "jsval \<Rightarrow> js_error + jsval" where
  "check_port options =
     (case get_prop options ''port'' of
        JNum port \<Rightarrow>
          if js_lt port (Fin 1) \<or> js_gt port (Fin 65535) \<or> js_neq (js_rem port (Fin 1)) (Fin 0)
          then Inl (Error ''Invalid port'')
          else Inr options
      | _ \<Rightarrow> Inl (Error ''Invalid port''))"

definition check_use_ssl :: "jsval \<Rightarrow> js_error + jsval" where
  "check_use_ssl options =
     (let useSsl = get_prop options ''useSsl'' in
      if typeof useSsl = ''number'' then Inr (set_prop options ''useSsl'' (JBool (truthy useSsl)))
      else if typeof useSsl = ''undefined'' then Inr (set_prop options ''useSsl'' (JBool False))
      else if typeof useSsl \<noteq> ''boolean'' then Inl (Error ''Invalid use ssl'')
      else Inr options)"

definition check_api_key :: "jsval \<Rightarrow> js_error + jsval" where
  "check_api_key options =
     (if not_string_or_empty (get_prop options ''apiKey'') then Inl (Error ''Invalid API key'')
      else Inr options)"

definition check_default_channel :: "jsval \<Rightarrow> js_error + jsval" where
  "check_default_channel options =
     (if not_string_or_empty (get_prop options ''defaultChannel'')
      then Inl (Error ''Invalid default channel'')
      else Inr options)"

definition check_timeout :: "jsval \<Rightarrow> js_error + jsval" where
  "check_timeout options =
     (case get_prop options ''timeout'' of
        JNum t \<Rightarrow>
          if js_lt t (Fin 1) \<or> js_neq (js_rem t (Fin 1)) (Fin 0)
          then Inl (Error ''Invalid timeout'')
          else Inr options
      | JUndefined \<Rightarrow> Inr (set_prop options ''timeout'' (JNum (Fin 30000)))
      | _ \<Rightarrow> Inl (Error ''Invalid timeout''))"

definition create :: "jsval \<Rightarrow> js_error + client" where
  "create options =
     bind_result (check_options options) (\<lambda>options.
     bind_result (check_host options) (\<lambda>options.
     bind_result (check_port options) (\<lambda>options.
     bind_result (check_use_ssl options) (\<lambda>options.
     bind_result (check_api_key options) (\<lambda>options.
     bind_result (check_default_channel options) (\<lambda>options.
     bind_result (check_timeout options) Client))))))"

section \<open>The transport\<close>

text \<open>
  \<^verbatim>\<open>fetch(url, opts)\<close> of node-fetch is the external collaborator. A request is the
  URL with the fields of \<^verbatim>\<open>opts\<close>; the body is the text \<^verbatim>\<open>JSON.stringify(body)\<close>,
  kept as the serialised value. A response has its numeric \<^verbatim>\<open>status\<close>, the outcome of
  \<^verbatim>\<open>response.text()\<close> (\<open>None\<close> when it rejects) and the outcome of
  \<^verbatim>\<open>response.json()\<close>. The server and the network are a function from the request to
  a rejection or a response.
\<close>

datatype json_text = JSON_stringify jsval

record request =
  req_url :: string
  req_method :: string
  req_headers :: "(string \<times> jsval) list"
  req_timeout :: jsval
  req_body :: json_text

record response =
  status :: nat
  body_text :: "string option"
  body_json :: "js_error + jsval"

type_synonym fetch = "request \<Rightarrow> js_error + response"

text \<open>What an operation does on the network, in order: the POST, and the reads of the
  response body.\<close>

datatype io_event = Fetch request | ReadText | ReadJson

type_synonym outcome = "(js_error + jsval) \<times> io_event list"

text \<open>The ambient \<^verbatim>\<open>process\<close> object of Node: \<^verbatim>\<open>process.pid\<close> and
  \<^verbatim>\<open>process.execPath\<close>.\<close>

record process =
  process_pid :: jsval
  process_execPath :: jsval

section \<open>The private methods\<close>

definition validateChannel :: "client \<Rightarrow> jsval \<Rightarrow> js_error + jsval" where
  "validateChannel c channel =
     (if truthy channel \<and> typeof channel \<noteq> ''string'' then Inl (Error ''Invalid channel'')
      else Inr (if truthy channel then channel else default_channel c))"

text \<open>\<^verbatim>\<open>typeof severity !== 'string' || (severity != 'error' && severity != 'warn' &&
  severity != 'info')\<close> is the second test.\<close>

definition validateSeverity :: "jsval \<Rightarrow> js_error + jsval" where
  "validateSeverity severity =
     (if \<not> truthy severity then Inr (JStr ''error'')
      else if (case severity of
                 JStr s \<Rightarrow> s \<noteq> ''error'' \<and> s \<noteq> ''warn'' \<and> s \<noteq> ''info''
               | _ \<Rightarrow> True)
      then Inl (Error ''Invalid severity'')
      else Inr severity)"

text \<open>
  In \<^verbatim>\<open>sendRequest\<close> the variable \<^verbatim>\<open>text\<close> is still \<^verbatim>\<open>undefined\<close> when
  \<^verbatim>\<open>response.text()\<close> has rejected (the \<^verbatim>\<open>catch\<close> block is empty), and the test
  \<^verbatim>\<open>typeof text !== 'string' || text.length == 0\<close> then puts the generic text in its
  place, as it does for the empty string. A rejection of \<^verbatim>\<open>fetch\<close> or of
  \<^verbatim>\<open>response.json()\<close> is not caught and becomes the outcome.
\<close>

definition generic_text :: string where
  "generic_text = ''Unsuccessful response from node.''"

definition sendRequest :: "fetch \<Rightarrow> client \<Rightarrow> string \<Rightarrow> jsval \<Rightarrow> jsval \<Rightarrow> outcome" where
  "sendRequest fetch c url body options =
     (let opts = \<lparr>
            req_url = url_base c @ url,
            req_method = ''POST'',
            req_headers = [(''Accept'', JStr ''application/json''),
                           (''Content-Type'', JStr ''application/json''),
                           (''X-Api-Key'', api_key c)],
            req_timeout = timeout c,
            req_body = JSON_stringify body \<rparr>
      in case fetch opts of
           Inl err \<Rightarrow> (Inl err, [Fetch opts])
         | Inr response \<Rightarrow>
             if status response \<noteq> 200 then
               (let text = (case body_text response of
                              None \<Rightarrow> generic_text
                            | Some t \<Rightarrow> if length t = 0 then generic_text else t)
                in (Inl (ClientRequestError
                           (text @ '' [Status: '' @ show_nat (status response) @ '']'')
                           (status response)),
                    [Fetch opts, ReadText]))
             else if truthy options \<and> truthy (get_prop options ''no_response'') then
               (Inr JUndefined, [Fetch opts])
             else
               (body_json response, [Fetch opts, ReadJson]))"

text \<open>An \<^verbatim>\<open>await sendRequest(...)\<close> whose value is dropped: the caller resolves with
  \<^verbatim>\<open>undefined\<close>, or rejects with the error of the request.\<close>

definition await_void :: "outcome \<Rightarrow> outcome" where
  "await_void r = (case fst r of Inl e \<Rightarrow> (Inl e, snd r) | Inr _ \<Rightarrow> (Inr JUndefined, snd r))"

definition no_response_opts :: jsval where
  "no_response_opts = JObj [(''no_response'', JBool True)]"

text \<open>\<^verbatim>\<open>notify\<close> tests \<^verbatim>\<open>typeof message !== 'string'\<close>, then
  \<^verbatim>\<open>message.length == 0\<close>, and only then validates the channel.\<close>

definition notify :: "fetch \<Rightarrow> client \<Rightarrow> jsval \<Rightarrow> jsval \<Rightarrow> jsval \<Rightarrow> outcome" where
  "notify fetch c message channel severity =
     (case message of
        JStr m \<Rightarrow>
          if length m = 0 then (Inr JUndefined, [])
          else (case validateChannel c channel of
                  Inl e \<Rightarrow> (Inl e, [])
                | Inr channel \<Rightarrow>
                    await_void (sendRequest fetch c ''notify''
                      (JObj [(''message'', message), (''channel'', channel),
                             (''severity'', severity)])
                      no_response_opts))
      | _ \<Rightarrow> (Inl (Error ''Invalid message''), []))"

section \<open>The public methods\<close>

definition getDefaultChannel :: "client \<Rightarrow> jsval" where
  "getDefaultChannel c = default_channel c"

definition error :: "fetch \<Rightarrow> client \<Rightarrow> jsval \<Rightarrow> jsval \<Rightarrow> outcome" where
  "error fetch c message channel = await_void (notify fetch c message channel (JStr ''error''))"

definition warn :: "fetch \<Rightarrow> client \<Rightarrow> jsval \<Rightarrow> jsval \<Rightarrow> outcome" where
  "warn fetch c message channel = await_void (notify fetch c message channel (JStr ''warn''))"

definition info :: "fetch \<Rightarrow> client \<Rightarrow> jsval \<Rightarrow> jsval \<Rightarrow> outcome" where
  "info fetch c message channel = await_void (notify fetch c message channel (JStr ''info''))"

text \<open>\<^verbatim>\<open>typeof pid !== 'number' || pid < 1 || (pid % 1) != 0\<close>\<close>

definition invalid_pid :: "jsval \<Rightarrow> bool" where
  "invalid_pid pid =
     (case pid of
        JNum n \<Rightarrow> js_lt n (Fin 1) \<or> js_neq (js_rem n (Fin 1)) (Fin 0)
      | _ \<Rightarrow> True)"

definition processWatch ::
  "process \<Rightarrow> fetch \<Rightarrow> client \<Rightarrow> jsval \<Rightarrow> jsval \<Rightarrow> jsval \<Rightarrow> jsval \<Rightarrow> outcome" where
  "processWatch proc fetch c pid0 name0 severity channel =
     (let pid = (if \<not> truthy pid0 then process_pid proc else pid0) in
      if invalid_pid pid then (Inl (Error ''Invalid process id''), [])
      else
        let name = (if \<not> truthy name0 then process_execPath proc else name0) in
        case validateSeverity severity of
          Inl e \<Rightarrow> (Inl e, [])
        | Inr severity \<Rightarrow>
            (case validateChannel c channel of
               Inl e \<Rightarrow> (Inl e, [])
             | Inr channel \<Rightarrow>
                 await_void (sendRequest fetch c ''process/watch''
                   (JObj [(''pid'', pid), (''name'', name), (''channel'', channel),
                          (''severity'', severity)])
                   no_response_opts)))"

definition processUnwatch :: "process \<Rightarrow> fetch \<Rightarrow> client \<Rightarrow> jsval \<Rightarrow> jsval \<Rightarrow> outcome" where
  "processUnwatch proc fetch c pid0 channel =
     (let pid = (if \<not> truthy pid0 then process_pid proc else pid0) in
      if invalid_pid pid then (Inl (Error ''Invalid process id''), [])
      else
        case validateChannel c channel of
          Inl e \<Rightarrow> (Inl e, [])
        | Inr channel \<Rightarrow>
            await_void (sendRequest fetch c ''process/unwatch''
              (JObj [(''pid'', pid), (''channel'', channel)])
              no_response_opts))"

text \<open>A call of a public method, and the calls made on one client one after the other.\<close>

datatype call =
    CallGetDefaultChannel
  | CallError jsval jsval
  | CallWarn jsval jsval
  | CallInfo jsval jsval
  | CallProcessWatch jsval jsval jsval jsval
  | CallProcessUnwatch jsval jsval

fun invoke :: "process \<Rightarrow> fetch \<Rightarrow> client \<Rightarrow> call \<Rightarrow> outcome" where
  "invoke proc fetch c CallGetDefaultChannel = (Inr (getDefaultChannel c), [])"
| "invoke proc fetch c (CallError message channel) = error fetch c message channel"
| "invoke proc fetch c (CallWarn message channel) = warn fetch c message channel"
| "invoke proc fetch c (CallInfo message channel) = info fetch c message channel"
| "invoke proc fetch c (CallProcessWatch pid name severity channel) =
     processWatch proc fetch c pid name severity channel"
| "invoke proc fetch c (CallProcessUnwatch pid channel) = processUnwatch proc fetch c pid channel"

section \<open>The specification's vocabulary\<close>

text \<open>
  The definitions of this section follow the words of the specification, not the code;
  the theorems below compare the two.

  \<^bold>\<open>ClientConfig\<close>: a non-empty host, a port that is an integer from 1 to 65535,
  a boolean \<open>useSsl\<close> (a number counts by its truthiness, absent is false), a non-empty
  API key, a non-empty default channel and a timeout that is a positive integer (absent is
  30000). Each reader gives \<open>None\<close> where the field breaks its rule.
\<close>

definition is_integer :: "rat \<Rightarrow> bool" where
  "is_integer r = (of_int \<lfloor>r\<rfloor> = r)"

record config =
  cfg_host :: string
  cfg_port :: nat
  cfg_useSsl :: bool
  cfg_apiKey :: string
  cfg_defaultChannel :: string
  cfg_timeout :: nat

definition string_field :: "jsval \<Rightarrow> string option" where
  "string_field v = (case v of JStr s \<Rightarrow> if s \<noteq> [] then Some s else None | _ \<Rightarrow> None)"

definition port_field :: "jsval \<Rightarrow> nat option" where
  "port_field v =
     (case v of
        JNum (Fin r) \<Rightarrow> if is_integer r \<and> 1 \<le> r \<and> r \<le> 65535 then Some (nat \<lfloor>r\<rfloor>) else None
      | _ \<Rightarrow> None)"

definition use_ssl_field :: "jsval \<Rightarrow> bool option" where
  "use_ssl_field v =
     (case v of
        JBool b \<Rightarrow> Some b
      | JNum n \<Rightarrow> Some (truthy (JNum n))
      | JUndefined \<Rightarrow> Some False
      | _ \<Rightarrow> None)"

definition timeout_field :: "jsval \<Rightarrow> nat option" where
  "timeout_field v =
     (case v of
        JUndefined \<Rightarrow> Some 30000
      | JNum (Fin r) \<Rightarrow> if is_integer r \<and> 0 < r then Some (nat \<lfloor>r\<rfloor>) else None
      | _ \<Rightarrow> None)"

text \<open>The rules in the order of the specification, the first broken one deciding the
  message. An object here is what \<^verbatim>\<open>typeof\<close> calls one, so \<^verbatim>\<open>null\<close> passes the
  first rule and is rejected by the second, having no host.\<close>

definition validate_config :: "jsval \<Rightarrow> string + config" where
  "validate_config options =
     (if \<not> (typeof options = ''object'' \<and> \<not> isArray options) then Inl ''Invalid options''
      else (case string_field (get_prop options ''host'') of
        None \<Rightarrow> Inl ''Invalid host''
      | Some h \<Rightarrow>
      (case port_field (get_prop options ''port'') of
        None \<Rightarrow> Inl ''Invalid port''
      | Some p \<Rightarrow>
      (case use_ssl_field (get_prop options ''useSsl'') of
        None \<Rightarrow> Inl ''Invalid use ssl''
      | Some ssl \<Rightarrow>
      (case string_field (get_prop options ''apiKey'') of
        None \<Rightarrow> Inl ''Invalid API key''
      | Some k \<Rightarrow>
      (case string_field (get_prop options ''defaultChannel'') of
        None \<Rightarrow> Inl ''Invalid default channel''
      | Some ch \<Rightarrow>
      (case timeout_field (get_prop options ''timeout'') of
        None \<Rightarrow> Inl ''Invalid timeout''
      | Some t \<Rightarrow>
          Inr \<lparr> cfg_host = h, cfg_port = p, cfg_useSsl = ssl, cfg_apiKey = k,
                cfg_defaultChannel = ch, cfg_timeout = t \<rparr>)))))))"

text \<open>The base URL and the client that a valid configuration gives.\<close>

definition base_url :: "config \<Rightarrow> string" where
  "base_url cfg = ''http'' @ (if cfg_useSsl cfg then ''s'' else []) @ ''://'' @ cfg_host cfg
                  @ '':'' @ show_nat (cfg_port cfg) @ ''/''"

definition client_of :: "config \<Rightarrow> client" where
  "client_of cfg = \<lparr> url_base = base_url cfg, api_key = JStr (cfg_apiKey cfg),
       default_channel = JStr (cfg_defaultChannel cfg),
       timeout = JNum (Fin (of_nat (cfg_timeout cfg))) \<rparr>"

text \<open>The POST of the request transport: JSON body, the three headers and the configured
  timeout; and the message of a failed request.\<close>

definition post_request :: "client \<Rightarrow> string \<Rightarrow> jsval \<Rightarrow> request" where
  "post_request c path body = \<lparr>
     req_url = url_base c @ path,
     req_method = ''POST'',
     req_headers = [(''Accept'', JStr ''application/json''),
                    (''Content-Type'', JStr ''application/json''),
                    (''X-Api-Key'', api_key c)],
     req_timeout = timeout c,
     req_body = JSON_stringify body \<rparr>"

definition failure_message :: "response \<Rightarrow> string" where
  "failure_message resp =
     (case body_text resp of
        None \<Rightarrow> ''Unsuccessful response from node.''
      | Some t \<Rightarrow> if t = [] then ''Unsuccessful response from node.'' else t)
     @ '' [Status: '' @ show_nat (status resp) @ '']''"

text \<open>A field of the JSON body of a request.\<close>

definition body_field :: "request \<Rightarrow> string \<Rightarrow> jsval" where
  "body_field r k = (case req_body r of JSON_stringify b \<Rightarrow> get_prop b k)"

text \<open>Arguments: a positive integer, a channel that is given and is no string, the channel
  a call ends up with, and the three severities.\<close>

definition positive_integer :: "jsval \<Rightarrow> bool" where
  "positive_integer v = (case v of JNum (Fin r) \<Rightarrow> is_integer r \<and> 0 < r | _ \<Rightarrow> False)"

definition bad_channel :: "jsval \<Rightarrow> bool" where
  "bad_channel channel = (truthy channel \<and> typeof channel \<noteq> ''string'')"

definition resolve_channel :: "client \<Rightarrow> jsval \<Rightarrow> jsval" where
  "resolve_channel c channel = (if truthy channel then channel else default_channel c)"

definition known_severity :: "jsval \<Rightarrow> bool" where
  "known_severity v = (v = JStr ''error'' \<or> v = JStr ''warn'' \<or> v = JStr ''info'')"

text \<open>The channel and the message argument of a call, where it has one.\<close>

fun call_channel :: "call \<Rightarrow> jsval option" where
  "call_channel CallGetDefaultChannel = None"
| "call_channel (CallError message channel) = Some channel"
| "call_channel (CallWarn message channel) = Some channel"
| "call_channel (CallInfo message channel) = Some channel"
| "call_channel (CallProcessWatch pid name severity channel) = Some channel"
| "call_channel (CallProcessUnwatch pid channel) = Some channel"

fun call_message :: "call \<Rightarrow> jsval option" where
  "call_message (CallError message channel) = Some message"
| "call_message (CallWarn message channel) = Some message"
| "call_message (CallInfo message channel) = Some message"
| "call_message _ = None"

subsection \<open>Sample data\<close>

text \<open>The options of \<^verbatim>\<open>test/demo.js\<close> with the client they give, a process, and
  servers that answer every request alike.\<close>

definition demo_options :: jsval where
  "demo_options = JObj [(''host'', JStr ''127.0.0.1''), (''port'', JNum (Fin 3004)),
     (''apiKey'', JStr ''set-some-key''), (''defaultChannel'', JStr ''default'')]"

definition demo_client :: client where
  "demo_client = \<lparr> url_base = ''http://127.0.0.1:3004/'', api_key = JStr ''set-some-key'',
     default_channel = JStr ''default'', timeout = JNum (Fin 30000) \<rparr>"

definition demo_process :: process where
  "demo_process = \<lparr> process_pid = JNum (Fin 4242), process_execPath = JStr ''/usr/bin/node'' \<rparr>"

definition server_ok :: fetch where
  "server_ok r = Inr \<lparr> status = 200, body_text = Some ''{}'', body_json = Inr (JObj []) \<rparr>"

definition server_boom :: fetch where
  "server_boom r = Inr \<lparr> status = 500, body_text = Some ''boom'',
     body_json = Inl (TransportError ''invalid json'') \<rparr>"

section \<open>Numbers\<close>

lemma not_integral_iff:
  "js_neq (js_rem n (Fin 1)) (Fin 0) = (case n of Fin r \<Rightarrow> \<not> is_integer r | _ \<Rightarrow> True)"
  by (cases n) (auto simp: trunc_def is_integer_def)

lemma integer_pos_ge_1: "is_integer r \<Longrightarrow> 0 < r \<longleftrightarrow> 1 \<le> r"
proof -
  assume "is_integer r"
  then obtain k :: int where r: "r = of_int k"
    by (metis is_integer_def)
  show ?thesis unfolding r by simp linarith
qed

lemma invalid_pid_iff: "invalid_pid v \<longleftrightarrow> \<not> positive_integer v"
  by (auto simp: invalid_pid_def positive_integer_def not_integral_iff integer_pos_ge_1
      simp del: js_rem.simps js_neq.simps split: jsval.splits jsnum.splits)

lemma port_string:
  assumes "port_field v = Some p"
  shows "to_string v = show_nat p" "v \<noteq> JUndefined" "v \<noteq> JNull"
  using assms by (auto simp: port_field_def is_integer_def split: jsval.splits jsnum.splits if_splits)

lemma timeout_value:
  assumes "timeout_field v = Some t" "v \<noteq> JUndefined"
  shows "v = JNum (Fin (of_nat t))"
  using assms by (auto simp: timeout_field_def is_integer_def split: jsval.splits jsnum.splits if_splits)

lemma show_nat_500: "show_nat 500 = ''500''"
  by (simp add: show_nat.simps digit_char_def)

section \<open>Construction refines the configuration rules\<close>


lemma string_field_Some: "string_field v = Some s \<Longrightarrow> v = JStr s \<and> s \<noteq> []"
  by (auto simp: string_field_def split: jsval.splits if_splits)

lemma check_host_eq:
  "check_host opts = (case string_field (get_prop opts ''host'') of
      None \<Rightarrow> Inl (Error ''Invalid host'') | Some h \<Rightarrow> Inr opts)"
  by (simp add: check_host_def string_field_def not_string_or_empty_def split: jsval.splits)

lemma check_api_key_eq:
  "check_api_key opts = (case string_field (get_prop opts ''apiKey'') of
      None \<Rightarrow> Inl (Error ''Invalid API key'') | Some h \<Rightarrow> Inr opts)"
  by (simp add: check_api_key_def string_field_def not_string_or_empty_def split: jsval.splits)

lemma check_default_channel_eq:
  "check_default_channel opts = (case string_field (get_prop opts ''defaultChannel'') of
      None \<Rightarrow> Inl (Error ''Invalid default channel'') | Some h \<Rightarrow> Inr opts)"
  by (simp add: check_default_channel_def string_field_def not_string_or_empty_def split: jsval.splits)

lemma check_port_eq:
  "check_port opts = (case port_field (get_prop opts ''port'') of
      None \<Rightarrow> Inl (Error ''Invalid port'') | Some p \<Rightarrow> Inr opts)"
  by (auto simp add: check_port_def port_field_def js_gt_def not_integral_iff
      simp del: js_rem.simps js_neq.simps split: jsval.splits jsnum.splits)

lemma check_timeout_eq:
  "check_timeout opts = (case timeout_field (get_prop opts ''timeout'') of
      None \<Rightarrow> Inl (Error ''Invalid timeout'')
    | Some t \<Rightarrow> Inr (case get_prop opts ''timeout'' of JUndefined \<Rightarrow> set_prop opts ''timeout'' (JNum (Fin 30000)) | _ \<Rightarrow> opts))"
  by (auto simp add: check_timeout_def timeout_field_def not_integral_iff integer_pos_ge_1
      simp del: js_rem.simps js_neq.simps split: jsval.splits jsnum.splits)

lemma use_ssl_step:
  assumes "use_ssl_field (get_prop (JObj kvs) ''useSsl'') = Some b"
  shows "\<exists>kvs'. check_use_ssl (JObj kvs) = Inr (JObj kvs') \<and> get_prop (JObj kvs') ''useSsl'' = JBool b
          \<and> (\<forall>k. k \<noteq> ''useSsl'' \<longrightarrow> get_prop (JObj kvs') k = get_prop (JObj kvs) k)"
  using assms
  by (auto simp: check_use_ssl_def use_ssl_field_def Let_def update_conv' split: jsval.splits)

lemma use_ssl_fail:
  assumes "use_ssl_field (get_prop opts ''useSsl'') = None"
  shows "check_use_ssl opts = Inl (Error ''Invalid use ssl'')"
  using assms
  by (auto simp: check_use_ssl_def use_ssl_field_def Let_def split: jsval.splits)

lemma timeout_step:
  assumes "timeout_field (get_prop (JObj kvs) ''timeout'') = Some t"
  shows "\<exists>kvs'. check_timeout (JObj kvs) = Inr (JObj kvs') \<and> get_prop (JObj kvs') ''timeout'' = JNum (Fin (of_nat t))
          \<and> (\<forall>k. k \<noteq> ''timeout'' \<longrightarrow> get_prop (JObj kvs') k = get_prop (JObj kvs) k)"
proof (cases "get_prop (JObj kvs) ''timeout'' = JUndefined")
  case True
  with assms have "t = 30000" by (simp add: timeout_field_def)
  with True show ?thesis
    by (auto simp: check_timeout_def update_conv' simp del: get_prop.simps) (auto simp: update_conv')
next
  case False
  from timeout_value[OF assms False] assms show ?thesis
    by (auto simp: check_timeout_eq simp del: get_prop.simps)
qed

lemma Client_eq:
  assumes "string_field (get_prop opts ''host'') = Some h"
    and "port_field (get_prop opts ''port'') = Some p"
    and "get_prop opts ''useSsl'' = JBool ssl"
    and "string_field (get_prop opts ''apiKey'') = Some k"
    and "string_field (get_prop opts ''defaultChannel'') = Some ch"
    and "get_prop opts ''timeout'' = JNum (Fin (of_nat t))"
  shows "Client opts = Inr (client_of \<lparr> cfg_host = h, cfg_port = p, cfg_useSsl = ssl, cfg_apiKey = k,
                cfg_defaultChannel = ch, cfg_timeout = t \<rparr>)"
  using assms port_string[OF assms(2)]
  by (auto simp: Client_def client_of_def base_url_def Let_def dest!: string_field_Some)

lemma create_obj:
  "create (JObj kvs) = (case validate_config (JObj kvs) of Inl msg \<Rightarrow> Inl (Error msg) | Inr cfg \<Rightarrow> Inr (client_of cfg))"
proof -
  let ?o = "JObj kvs"
  note defs = create_def check_options_def bind_result_def validate_config_def
    check_host_eq check_port_eq check_api_key_eq check_default_channel_eq check_timeout_eq
  show ?thesis
  proof (cases "string_field (get_prop ?o ''host'')")
    case None
    then show ?thesis by (simp add: defs del: get_prop.simps)
  next
    case h: (Some h)
    show ?thesis
    proof (cases "port_field (get_prop ?o ''port'')")
      case None
      with h show ?thesis by (simp add: defs del: get_prop.simps)
    next
      case p: (Some p)
      show ?thesis
      proof (cases "use_ssl_field (get_prop ?o ''useSsl'')")
        case None
        with h p show ?thesis by (simp add: defs use_ssl_fail del: get_prop.simps)
      next
        case ssl: (Some ssl)
        from use_ssl_step[OF ssl] obtain kvs1 where
          s1: "check_use_ssl ?o = Inr (JObj kvs1)"
          and u1: "get_prop (JObj kvs1) ''useSsl'' = JBool ssl"
          and same1: "\<And>k. k \<noteq> ''useSsl'' \<Longrightarrow> get_prop (JObj kvs1) k = get_prop ?o k"
          by blast
        have f1: "get_prop (JObj kvs1) ''host'' = get_prop ?o ''host''"
          "get_prop (JObj kvs1) ''port'' = get_prop ?o ''port''"
          "get_prop (JObj kvs1) ''apiKey'' = get_prop ?o ''apiKey''"
          "get_prop (JObj kvs1) ''defaultChannel'' = get_prop ?o ''defaultChannel''"
          "get_prop (JObj kvs1) ''timeout'' = get_prop ?o ''timeout''"
          by (simp_all add: same1 del: get_prop.simps)
        show ?thesis
        proof (cases "string_field (get_prop ?o ''apiKey'')")
          case None
          with h p ssl s1 f1 show ?thesis by (simp add: defs del: get_prop.simps)
        next
          case k: (Some k)
          show ?thesis
          proof (cases "string_field (get_prop ?o ''defaultChannel'')")
            case None
            with h p ssl s1 f1 k show ?thesis by (simp add: defs del: get_prop.simps)
          next
            case ch: (Some ch)
            show ?thesis
            proof (cases "timeout_field (get_prop ?o ''timeout'')")
              case None
              with h p ssl s1 f1 k ch show ?thesis by (simp add: defs del: get_prop.simps)
            next
              case t: (Some t)
              from t f1 have "timeout_field (get_prop (JObj kvs1) ''timeout'') = Some t"
                by simp
              from timeout_step[OF this] obtain kvs2 where
                s2: "check_timeout (JObj kvs1) = Inr (JObj kvs2)"
                and t2: "get_prop (JObj kvs2) ''timeout'' = JNum (Fin (of_nat t))"
                and same2: "\<And>k. k \<noteq> ''timeout'' \<Longrightarrow> get_prop (JObj kvs2) k = get_prop (JObj kvs1) k"
                by blast
              have f2: "get_prop (JObj kvs2) ''host'' = get_prop ?o ''host''"
                "get_prop (JObj kvs2) ''port'' = get_prop ?o ''port''"
                "get_prop (JObj kvs2) ''apiKey'' = get_prop ?o ''apiKey''"
                "get_prop (JObj kvs2) ''defaultChannel'' = get_prop ?o ''defaultChannel''"
                "get_prop (JObj kvs2) ''useSsl'' = JBool ssl"
                by (simp_all add: same2 f1 u1 del: get_prop.simps)
              have "Client (JObj kvs2) = Inr (client_of \<lparr> cfg_host = h, cfg_port = p, cfg_useSsl = ssl,
                  cfg_apiKey = k, cfg_defaultChannel = ch, cfg_timeout = t \<rparr>)"
                by (rule Client_eq) (simp_all only: f2 t2 h p k ch)
              moreover have "create ?o = Client (JObj kvs2)"
                using h p s1 f1 k ch s2
                by (simp add: create_def check_options_def bind_result_def check_host_eq check_port_eq
                    check_api_key_eq check_default_channel_eq del: get_prop.simps)
              moreover have "validate_config ?o = Inr \<lparr> cfg_host = h, cfg_port = p, cfg_useSsl = ssl,
                  cfg_apiKey = k, cfg_defaultChannel = ch, cfg_timeout = t \<rparr>"
                using h p ssl k ch t by (simp add: validate_config_def del: get_prop.simps)
              ultimately show ?thesis by simp
            qed
          qed
        qed
      qed
    qed
  qed
qed

lemma create_refines:
  "create options = (case validate_config options of Inl msg \<Rightarrow> Inl (Error msg) | Inr cfg \<Rightarrow> Inr (client_of cfg))"
proof (cases options)
  case (JObj kvs)
  then show ?thesis by (simp only: create_obj)
next
  case JNull
  then show ?thesis
    by (simp add: create_def check_options_def bind_result_def check_host_def not_string_or_empty_def
        validate_config_def string_field_def)
qed (simp_all add: create_def check_options_def bind_result_def validate_config_def)

section \<open>Requests\<close>


lemma sendRequest_events:
  "\<exists>rest. snd (sendRequest f c url body opts) = Fetch (post_request c url body) # rest
     \<and> Fetch (post_request c url body) \<notin> set rest \<and> (\<forall>r. Fetch r \<notin> set rest)"
  by (auto simp: sendRequest_def post_request_def Let_def split: sum.splits)

lemma sendRequest_fetched:
  "Fetch r \<in> set (snd (sendRequest f c url body opts)) \<Longrightarrow> r = post_request c url body"
  using sendRequest_events[of f c url body opts] by auto

lemma sendRequest_sends:
  "Fetch (post_request c url body) \<in> set (snd (sendRequest f c url body opts))"
  using sendRequest_events[of f c url body opts] by auto


lemma sendRequest_body:
  "Fetch r \<in> set (snd (sendRequest f c url (JObj kvs) opts)) \<Longrightarrow>
   body_field r k = get_prop (JObj kvs) k \<and> req_url r = url_base c @ url"
  by (drule sendRequest_fetched) (simp add: post_request_def body_field_def)

lemma sendRequest_non200:
  assumes "f (post_request c url body) = Inr resp" "status resp \<noteq> 200"
  shows "sendRequest f c url body opts =
     (Inl (ClientRequestError (failure_message resp) (status resp)),
      [Fetch (post_request c url body), ReadText])"
  using assms
  by (simp add: sendRequest_def post_request_def failure_message_def generic_text_def Let_def
      split: option.splits)

lemma sendRequest_200:
  assumes "f (post_request c url body) = Inr resp" "status resp = 200"
  shows "sendRequest f c url body opts =
     (if truthy opts \<and> truthy (get_prop opts ''no_response'')
      then (Inr JUndefined, [Fetch (post_request c url body)])
      else (body_json resp, [Fetch (post_request c url body), ReadJson]))"
  using assms
  by (simp add: sendRequest_def post_request_def Let_def)

lemma await_void_simps [simp]:
  "snd (await_void r) = snd r"
  "fst (await_void r) = (case fst r of Inl e \<Rightarrow> Inl e | Inr _ \<Rightarrow> Inr JUndefined)"
  "await_void (await_void r) = await_void r"
  "await_void (Inl e, evs) = (Inl e, evs)"
  "await_void (Inr v, evs) = (Inr JUndefined, evs)"
  by (auto simp: await_void_def split: sum.splits)

lemma validateChannel_eq:
  "validateChannel c channel =
     (if bad_channel channel then Inl (Error ''Invalid channel'') else Inr (resolve_channel c channel))"
  by (simp add: validateChannel_def bad_channel_def resolve_channel_def)

lemma validateSeverity_eq:
  "validateSeverity severity =
     (if \<not> truthy severity then Inr (JStr ''error'')
      else if known_severity severity then Inr severity
      else Inl (Error ''Invalid severity''))"
  by (auto simp: validateSeverity_def known_severity_def split: jsval.splits)

lemma notify_eq:
  "notify f c message channel severity =
     (if typeof message \<noteq> ''string'' then (Inl (Error ''Invalid message''), [])
      else if message = JStr [] then (Inr JUndefined, [])
      else if bad_channel channel then (Inl (Error ''Invalid channel''), [])
      else await_void (sendRequest f c ''notify''
             (JObj [(''message'', message), (''channel'', resolve_channel c channel),
                    (''severity'', severity)]) no_response_opts))"
  by (cases message) (simp_all add: notify_def validateChannel_eq)

lemma processWatch_eq:
  "processWatch proc f c pid name severity channel =
     (let pid' = (if truthy pid then pid else process_pid proc) in
      if \<not> positive_integer pid' then (Inl (Error ''Invalid process id''), [])
      else if truthy severity \<and> \<not> known_severity severity then (Inl (Error ''Invalid severity''), [])
      else if bad_channel channel then (Inl (Error ''Invalid channel''), [])
      else await_void (sendRequest f c ''process/watch''
             (JObj [(''pid'', pid'),
                    (''name'', if truthy name then name else process_execPath proc),
                    (''channel'', resolve_channel c channel),
                    (''severity'', if truthy severity then severity else JStr ''error'')])
             no_response_opts))"
  by (simp add: processWatch_def Let_def invalid_pid_iff validateChannel_eq validateSeverity_eq)

lemma processUnwatch_eq:
  "processUnwatch proc f c pid channel =
     (let pid' = (if truthy pid then pid else process_pid proc) in
      if \<not> positive_integer pid' then (Inl (Error ''Invalid process id''), [])
      else if bad_channel channel then (Inl (Error ''Invalid channel''), [])
      else await_void (sendRequest f c ''process/unwatch''
             (JObj [(''pid'', pid'), (''channel'', resolve_channel c channel)])
             no_response_opts))"
  by (simp add: processUnwatch_def Let_def invalid_pid_iff validateChannel_eq)

lemma invoke_cases:
  "snd (invoke proc f c call) = [] \<or>
   (\<exists>url body. invoke proc f c call = await_void (sendRequest f c url body no_response_opts))"
proof (cases call)
  case CallGetDefaultChannel
  then show ?thesis by simp
next
  case (CallError m ch)
  then show ?thesis by (auto simp: error_def notify_eq)
next
  case (CallWarn m ch)
  then show ?thesis by (auto simp: warn_def notify_eq)
next
  case (CallInfo m ch)
  then show ?thesis by (auto simp: info_def notify_eq)
next
  case (CallProcessWatch pid name sev ch)
  then show ?thesis by (auto simp: processWatch_eq Let_def)
next
  case (CallProcessUnwatch pid ch)
  then show ?thesis by (auto simp: processUnwatch_eq Let_def)
qed

lemma invoke_non200:
  assumes "Fetch r \<in> set (snd (invoke proc f c call))" "f r = Inr resp" "status resp \<noteq> 200"
  shows "invoke proc f c call =
     (Inl (ClientRequestError (failure_message resp) (status resp)), [Fetch r, ReadText])"
proof -
  from invoke_cases[of proc f c call] assms(1) obtain url body where
    inv: "invoke proc f c call = await_void (sendRequest f c url body no_response_opts)"
    by auto
  with assms(1) have r: "r = post_request c url body"
    by (simp add: sendRequest_fetched)
  from assms(2,3) show ?thesis
    unfolding inv r by (simp add: sendRequest_non200)
qed

section \<open>Calls\<close>

lemma invoke_url:
  assumes "Fetch r \<in> set (snd (invoke proc fetch c call))"
  shows "req_url r = url_base c @ ''notify'' \<or> req_url r = url_base c @ ''process/watch''
       \<or> req_url r = url_base c @ ''process/unwatch''"
proof (cases call)
  case CallGetDefaultChannel
  with assms show ?thesis by simp
next
  case (CallError m ch)
  with assms show ?thesis
    by (auto simp: error_def notify_eq split: if_splits dest: sendRequest_body)
next
  case (CallWarn m ch)
  with assms show ?thesis
    by (auto simp: warn_def notify_eq split: if_splits dest: sendRequest_body)
next
  case (CallInfo m ch)
  with assms show ?thesis
    by (auto simp: info_def notify_eq split: if_splits dest: sendRequest_body)
next
  case (CallProcessWatch pid name sev ch)
  with assms show ?thesis
    by (auto simp: processWatch_eq Let_def split: if_splits dest: sendRequest_body)
next
  case (CallProcessUnwatch pid ch)
  with assms show ?thesis
    by (auto simp: processUnwatch_eq Let_def split: if_splits dest: sendRequest_body)
qed

lemma invoke_channel:
  assumes "call_channel call = Some channel"
    and "Fetch r \<in> set (snd (invoke proc fetch c call))"
  shows "\<not> bad_channel channel \<and> body_field r ''channel'' = resolve_channel c channel"
proof (cases call)
  case CallGetDefaultChannel
  with assms show ?thesis by simp
next
  case (CallError m ch)
  with assms show ?thesis
    by (auto simp: error_def notify_eq split: if_splits dest!: sendRequest_body[where k = "''channel''"])
next
  case (CallWarn m ch)
  with assms show ?thesis
    by (auto simp: warn_def notify_eq split: if_splits dest!: sendRequest_body[where k = "''channel''"])
next
  case (CallInfo m ch)
  with assms show ?thesis
    by (auto simp: info_def notify_eq split: if_splits dest!: sendRequest_body[where k = "''channel''"])
next
  case (CallProcessWatch pid name sev ch)
  with assms show ?thesis
    by (auto simp: processWatch_eq Let_def split: if_splits dest!: sendRequest_body[where k = "''channel''"])
next
  case (CallProcessUnwatch pid ch)
  with assms show ?thesis
    by (auto simp: processUnwatch_eq Let_def split: if_splits dest!: sendRequest_body[where k = "''channel''"])
qed

lemma invoke_bad_channel:
  assumes "call_channel call = Some channel" and "bad_channel channel"
  shows "snd (invoke proc fetch c call) = []
       \<and> (if call_message call = Some (JStr []) then fst (invoke proc fetch c call) = Inr JUndefined
          else \<exists>msg. fst (invoke proc fetch c call) = Inl (Error msg))"
proof (cases call)
  case CallGetDefaultChannel
  with assms show ?thesis by simp
next
  case (CallError m ch)
  with assms show ?thesis by (auto simp: error_def notify_eq)
next
  case (CallWarn m ch)
  with assms show ?thesis by (auto simp: warn_def notify_eq)
next
  case (CallInfo m ch)
  with assms show ?thesis by (auto simp: info_def notify_eq)
next
  case (CallProcessWatch pid name sev ch)
  with assms show ?thesis by (auto simp: processWatch_eq Let_def)
next
  case (CallProcessUnwatch pid ch)
  with assms show ?thesis by (auto simp: processUnwatch_eq Let_def)
qed

text \<open>With valid arguments each operation sends its request.\<close>

lemma processWatch_sends:
  assumes "positive_integer (if truthy pid then pid else process_pid proc)"
    and "\<not> truthy severity \<or> known_severity severity"
    and "\<not> bad_channel channel"
  shows "\<exists>r rest. snd (processWatch proc fetch c pid name severity channel) = Fetch r # rest
       \<and> req_url r = url_base c @ ''process/watch''
       \<and> body_field r ''pid'' = (if truthy pid then pid else process_pid proc)
       \<and> body_field r ''channel'' = resolve_channel c channel
       \<and> body_field r ''severity'' = (if truthy severity then severity else JStr ''error'')"
proof -
  let ?body = "[(''pid'', if truthy pid then pid else process_pid proc),
      (''name'', if truthy name then name else process_execPath proc),
      (''channel'', resolve_channel c channel),
      (''severity'', if truthy severity then severity else JStr ''error'')]"
  from assms have e: "processWatch proc fetch c pid name severity channel
      = await_void (sendRequest fetch c ''process/watch'' (JObj ?body) no_response_opts)"
    by (auto simp: processWatch_eq Let_def)
  from sendRequest_events[of fetch c "''process/watch''" "JObj ?body" no_response_opts]
  obtain rest where "snd (sendRequest fetch c ''process/watch'' (JObj ?body) no_response_opts)
      = Fetch (post_request c ''process/watch'' (JObj ?body)) # rest"
    by blast
  then show ?thesis
    unfolding e by (simp add: post_request_def body_field_def)
qed

lemma processUnwatch_sends:
  assumes "positive_integer (if truthy pid then pid else process_pid proc)"
    and "\<not> bad_channel channel"
  shows "\<exists>r rest. snd (processUnwatch proc fetch c pid channel) = Fetch r # rest
       \<and> req_url r = url_base c @ ''process/unwatch''
       \<and> body_field r ''pid'' = (if truthy pid then pid else process_pid proc)
       \<and> body_field r ''channel'' = resolve_channel c channel"
proof -
  let ?body = "[(''pid'', if truthy pid then pid else process_pid proc),
      (''channel'', resolve_channel c channel)]"
  from assms have e: "processUnwatch proc fetch c pid channel
      = await_void (sendRequest fetch c ''process/unwatch'' (JObj ?body) no_response_opts)"
    by (auto simp: processUnwatch_eq Let_def)
  from sendRequest_events[of fetch c "''process/unwatch''" "JObj ?body" no_response_opts]
  obtain rest where "snd (sendRequest fetch c ''process/unwatch'' (JObj ?body) no_response_opts)
      = Fetch (post_request c ''process/unwatch'' (JObj ?body)) # rest"
    by blast
  then show ?thesis
    unfolding e by (simp add: post_request_def body_field_def)
qed


lemma server_ok_send:
  "sendRequest server_ok c url body no_response_opts = (Inr JUndefined, [Fetch (post_request c url body)])"
  using sendRequest_200[of server_ok c url body
      "\<lparr> status = 200, body_text = Some ''{}'', body_json = Inr (JObj []) \<rparr>" no_response_opts]
  by (simp add: server_ok_def no_response_opts_def)

section \<open>Facts about the specification's vocabulary and the sample data\<close>

lemma port_field_Some:
  "port_field v = Some p \<Longrightarrow> v = JNum (Fin (of_nat p)) \<and> 1 \<le> p \<and> p \<le> 65535"
  by (auto simp: port_field_def is_integer_def split: jsval.splits jsnum.splits if_splits)

lemma validate_config_Inr:
  assumes "validate_config options = Inr cfg"
  shows "string_field (get_prop options ''host'') = Some (cfg_host cfg)"
    "port_field (get_prop options ''port'') = Some (cfg_port cfg)"
    "use_ssl_field (get_prop options ''useSsl'') = Some (cfg_useSsl cfg)"
    "string_field (get_prop options ''apiKey'') = Some (cfg_apiKey cfg)"
    "string_field (get_prop options ''defaultChannel'') = Some (cfg_defaultChannel cfg)"
    "timeout_field (get_prop options ''timeout'') = Some (cfg_timeout cfg)"
  using assms
  by (auto simp: validate_config_def simp del: get_prop.simps split: if_splits option.splits)

lemma create_Inr:
  assumes "create options = Inr c"
  obtains cfg where "validate_config options = Inr cfg" "c = client_of cfg"
  using assms create_refines[of options] by (auto split: sum.splits)

lemma positive_integer_numeral [simp]:
  "positive_integer (JNum (Fin (numeral n)))"
  by (simp add: positive_integer_def is_integer_def)

lemma show_nat_3004: "show_nat 3004 = ''3004''"
  by (simp add: show_nat.simps digit_char_def)

lemma validate_demo_options:
  "validate_config demo_options = Inr \<lparr> cfg_host = ''127.0.0.1'', cfg_port = 3004,
     cfg_useSsl = False, cfg_apiKey = ''set-some-key'', cfg_defaultChannel = ''default'',
     cfg_timeout = 30000 \<rparr>"
  by (simp add: validate_config_def demo_options_def string_field_def port_field_def
      use_ssl_field_def timeout_field_def is_integer_def)

lemma create_demo_options: "create demo_options = Inr demo_client"
  by (simp add: create_refines validate_demo_options client_of_def base_url_def demo_client_def
      show_nat_3004)

section \<open>The claims\<close>

text \<open>
  \<^bold>\<open>C1\<close>. Whenever a public operation has sent its POST and the response has a status
  other than 200, the operation fails with a \<open>ClientRequestError\<close> whose message is
  the text of the response body followed by \<^verbatim>\<open> [Status: <code>]\<close>, with
  \<^verbatim>\<open>Unsuccessful response from node.\<close> in place of a body that could not be read or is
  empty, and whose status-code field is the HTTP status.
\<close>

theorem non200_raises_request_error:
  assumes "Fetch r \<in> set (snd (invoke proc fetch c call))"
    and "fetch r = Inr resp"
    and "status resp \<noteq> 200"
  shows "fst (invoke proc fetch c call) =
     Inl (ClientRequestError
       ((case body_text resp of
           None \<Rightarrow> ''Unsuccessful response from node.''
         | Some t \<Rightarrow> if t = [] then ''Unsuccessful response from node.'' else t)
        @ '' [Status: '' @ show_nat (status resp) @ '']'')
       (status resp))"
  using invoke_non200[OF assms] by (simp add: failure_message_def)

text \<open>The example of the specification: status 500 with body \<^verbatim>\<open>boom\<close>.\<close>

theorem non200_raises_request_error_witness:
  "Fetch (post_request demo_client ''notify''
       (JObj [(''message'', JStr ''msg''), (''channel'', JStr ''default''),
              (''severity'', JStr ''error'')]))
     \<in> set (snd (invoke demo_process server_boom demo_client (CallError (JStr ''msg'') JUndefined)))
   \<and> fst (invoke demo_process server_boom demo_client (CallError (JStr ''msg'') JUndefined))
     = Inl (ClientRequestError ''boom [Status: 500]'' 500)"
proof -
  let ?r = "post_request demo_client ''notify''
       (JObj [(''message'', JStr ''msg''), (''channel'', JStr ''default''),
              (''severity'', JStr ''error'')])"
  let ?resp = "\<lparr> status = 500, body_text = Some ''boom'',
     body_json = Inl (TransportError ''invalid json'') \<rparr>"
  have sent: "Fetch ?r \<in> set (snd (invoke demo_process server_boom demo_client
      (CallError (JStr ''msg'') JUndefined)))"
    by (simp add: error_def notify_eq bad_channel_def resolve_channel_def sendRequest_sends)
       (simp add: demo_client_def sendRequest_sends)
  have resp: "server_boom ?r = Inr ?resp"
    by (simp add: server_boom_def)
  have st: "status ?resp \<noteq> 200"
    by simp
  from non200_raises_request_error[OF sent resp st] sent show ?thesis
    by (simp add: show_nat_500)
qed


text \<open>
  \<^bold>\<open>C2\<close>. For each of \<open>error\<close>, \<open>warn\<close> and \<open>info\<close>: a message that is not a
  string makes the call fail with \<^verbatim>\<open>Invalid message\<close> and no network event, and the
  empty string makes it resolve with no value and no network event.
\<close>

theorem notification_message_contract:
  "(typeof message \<noteq> ''string'' \<longrightarrow>
      error fetch c message channel = (Inl (Error ''Invalid message''), [])
    \<and> warn fetch c message channel = (Inl (Error ''Invalid message''), [])
    \<and> info fetch c message channel = (Inl (Error ''Invalid message''), []))
   \<and> error fetch c (JStr []) channel = (Inr JUndefined, [])
   \<and> warn fetch c (JStr []) channel = (Inr JUndefined, [])
   \<and> info fetch c (JStr []) channel = (Inr JUndefined, [])"
  by (simp add: error_def warn_def info_def notify_eq)

theorem notification_message_contract_witness:
  "typeof (JNum (Fin 7)) \<noteq> ''string''
   \<and> error server_ok demo_client (JNum (Fin 7)) JUndefined = (Inl (Error ''Invalid message''), [])
   \<and> info server_ok demo_client (JStr []) JUndefined = (Inr JUndefined, [])"
  using notification_message_contract[of "JNum (Fin 7)" server_ok demo_client JUndefined]
  by simp

text \<open>
  \<^bold>\<open>C3\<close>. \<open>create\<close> is the configuration rules applied in their order: options a
  non-array object, host a non-empty string, port an integer from 1 to 65535, useSsl a
  boolean (a number by its truthiness, absent false, anything else an error), apiKey and
  defaultChannel non-empty strings, timeout a positive integer (absent 30000). The first
  broken rule gives the error and otherwise the client of the configuration is returned. In
  particular construction fails for a missing or empty host, port 0, port 65536, a
  non-integer port, an empty apiKey, an empty defaultChannel, and a non-positive or
  non-integer timeout.
\<close>

theorem create_validation_order:
  "create options =
     (case validate_config options of
        Inl msg \<Rightarrow> Inl (Error msg)
      | Inr cfg \<Rightarrow> Inr (client_of cfg))
   \<and> (get_prop options ''host'' = JUndefined \<or> get_prop options ''host'' = JStr []
      \<or> get_prop options ''port'' = JNum (Fin 0) \<or> get_prop options ''port'' = JNum (Fin 65536)
      \<or> (\<exists>r. get_prop options ''port'' = JNum (Fin r) \<and> \<not> is_integer r)
      \<or> get_prop options ''apiKey'' = JStr []
      \<or> get_prop options ''defaultChannel'' = JStr []
      \<or> (\<exists>r. get_prop options ''timeout'' = JNum (Fin r) \<and> r \<le> 0)
      \<or> (\<exists>r. get_prop options ''timeout'' = JNum (Fin r) \<and> \<not> is_integer r)
      \<longrightarrow> (\<exists>msg. create options = Inl (Error msg)))"
proof (rule conjI)
  show "create options =
     (case validate_config options of
        Inl msg \<Rightarrow> Inl (Error msg)
      | Inr cfg \<Rightarrow> Inr (client_of cfg))"
    by (rule create_refines)
next
  have rejected: "\<exists>msg. validate_config options = Inl msg"
    if "string_field (get_prop options ''host'') = None
      \<or> port_field (get_prop options ''port'') = None
      \<or> string_field (get_prop options ''apiKey'') = None
      \<or> string_field (get_prop options ''defaultChannel'') = None
      \<or> timeout_field (get_prop options ''timeout'') = None"
    using that by (auto simp: validate_config_def simp del: get_prop.simps split: option.splits)
  show "get_prop options ''host'' = JUndefined \<or> get_prop options ''host'' = JStr []
      \<or> get_prop options ''port'' = JNum (Fin 0) \<or> get_prop options ''port'' = JNum (Fin 65536)
      \<or> (\<exists>r. get_prop options ''port'' = JNum (Fin r) \<and> \<not> is_integer r)
      \<or> get_prop options ''apiKey'' = JStr []
      \<or> get_prop options ''defaultChannel'' = JStr []
      \<or> (\<exists>r. get_prop options ''timeout'' = JNum (Fin r) \<and> r \<le> 0)
      \<or> (\<exists>r. get_prop options ''timeout'' = JNum (Fin r) \<and> \<not> is_integer r)
      \<longrightarrow> (\<exists>msg. create options = Inl (Error msg))"
  proof
    assume "get_prop options ''host'' = JUndefined \<or> get_prop options ''host'' = JStr []
      \<or> get_prop options ''port'' = JNum (Fin 0) \<or> get_prop options ''port'' = JNum (Fin 65536)
      \<or> (\<exists>r. get_prop options ''port'' = JNum (Fin r) \<and> \<not> is_integer r)
      \<or> get_prop options ''apiKey'' = JStr []
      \<or> get_prop options ''defaultChannel'' = JStr []
      \<or> (\<exists>r. get_prop options ''timeout'' = JNum (Fin r) \<and> r \<le> 0)
      \<or> (\<exists>r. get_prop options ''timeout'' = JNum (Fin r) \<and> \<not> is_integer r)"
    then have "string_field (get_prop options ''host'') = None
      \<or> port_field (get_prop options ''port'') = None
      \<or> string_field (get_prop options ''apiKey'') = None
      \<or> string_field (get_prop options ''defaultChannel'') = None
      \<or> timeout_field (get_prop options ''timeout'') = None"
      by (auto simp: string_field_def port_field_def timeout_field_def is_integer_def
          simp del: get_prop.simps)
    then obtain msg where "validate_config options = Inl msg"
      using rejected by blast
    then show "\<exists>msg. create options = Inl (Error msg)"
      by (simp add: create_refines)
  qed
qed

theorem create_validation_order_witness:
  "get_prop (JObj [(''host'', JStr ''127.0.0.1''), (''port'', JNum (Fin 65536))]) ''port''
     = JNum (Fin 65536)
   \<and> create (JObj [(''host'', JStr ''127.0.0.1''), (''port'', JNum (Fin 65536))])
     = Inl (Error ''Invalid port'')
   \<and> create demo_options = Inr demo_client"
  using create_validation_order[of "JObj [(''host'', JStr ''127.0.0.1''), (''port'', JNum (Fin 65536))]"]
    create_validation_order[of demo_options]
  by (simp add: validate_demo_options client_of_def base_url_def demo_client_def show_nat_3004)
     (simp add: validate_config_def string_field_def port_field_def)

text \<open>
  \<^bold>\<open>C4\<close>. For every configuration that \<open>create\<close> accepts, the base URL is exactly
  \<^verbatim>\<open>http\<close>, an \<^verbatim>\<open>s\<close> if useSsl holds, \<^verbatim>\<open>://\<close>, the host, a colon, the decimal
  digits of the port and a slash; and every request of every operation goes to that base
  URL followed by the path of the operation.
\<close>

theorem base_url_exact:
  assumes "create options = Inr c"
  shows "\<exists>host port useSsl.
           get_prop options ''host'' = JStr host
         \<and> get_prop options ''port'' = JNum (Fin (of_nat port))
         \<and> use_ssl_field (get_prop options ''useSsl'') = Some useSsl
         \<and> url_base c = ''http'' @ (if useSsl then ''s'' else []) @ ''://'' @ host
                         @ '':'' @ show_nat port @ ''/''
         \<and> (\<forall>proc fetch call r. Fetch r \<in> set (snd (invoke proc fetch c call)) \<longrightarrow>
               req_url r = url_base c @ ''notify''
             \<or> req_url r = url_base c @ ''process/watch''
             \<or> req_url r = url_base c @ ''process/unwatch'')"
proof -
  from assms obtain cfg where v: "validate_config options = Inr cfg" and c: "c = client_of cfg"
    by (rule create_Inr)
  note f = validate_config_Inr[OF v]
  from f(1) have h: "get_prop options ''host'' = JStr (cfg_host cfg)"
    by (simp add: string_field_Some)
  from f(2) have p: "get_prop options ''port'' = JNum (Fin (of_nat (cfg_port cfg)))"
    by (simp add: port_field_Some)
  have u: "url_base c = ''http'' @ (if cfg_useSsl cfg then ''s'' else []) @ ''://'' @ cfg_host cfg
                         @ '':'' @ show_nat (cfg_port cfg) @ ''/''"
    by (simp add: c client_of_def base_url_def)
  from h p f(3) u invoke_url show ?thesis
    by blast
qed

theorem base_url_exact_witness:
  "create demo_options = Inr demo_client
   \<and> url_base demo_client = ''http://127.0.0.1:3004/''
   \<and> Fetch (post_request demo_client ''notify''
        (JObj [(''message'', JStr ''hello''), (''channel'', JStr ''default''),
               (''severity'', JStr ''info'')]))
       \<in> set (snd (invoke demo_process server_ok demo_client (CallInfo (JStr ''hello'') JUndefined)))
   \<and> req_url (post_request demo_client ''notify''
        (JObj [(''message'', JStr ''hello''), (''channel'', JStr ''default''),
               (''severity'', JStr ''info'')]))
       = ''http://127.0.0.1:3004/notify''"
proof -
  let ?r = "post_request demo_client ''notify''
        (JObj [(''message'', JStr ''hello''), (''channel'', JStr ''default''),
               (''severity'', JStr ''info'')])"
  have sent: "Fetch ?r
      \<in> set (snd (invoke demo_process server_ok demo_client (CallInfo (JStr ''hello'') JUndefined)))"
    by (simp add: info_def notify_eq bad_channel_def resolve_channel_def sendRequest_sends)
       (simp add: demo_client_def sendRequest_sends)
  from base_url_exact[OF create_demo_options] obtain host port useSsl where
    h: "get_prop demo_options ''host'' = JStr host"
    and p: "get_prop demo_options ''port'' = JNum (Fin (of_nat port))"
    and s: "use_ssl_field (get_prop demo_options ''useSsl'') = Some useSsl"
    and u: "url_base demo_client = ''http'' @ (if useSsl then ''s'' else []) @ ''://'' @ host
                         @ '':'' @ show_nat port @ ''/''"
    and r: "\<And>proc fetch call r. Fetch r \<in> set (snd (invoke proc fetch demo_client call)) \<Longrightarrow>
               req_url r = url_base demo_client @ ''notify''
             \<or> req_url r = url_base demo_client @ ''process/watch''
             \<or> req_url r = url_base demo_client @ ''process/unwatch''"
    by blast
  from h have host: "host = ''127.0.0.1''"
    by (simp add: demo_options_def)
  from p have "rat_of_nat port = rat_of_nat 3004"
    by (simp add: demo_options_def)
  then have port: "port = 3004"
    by (simp only: of_nat_eq_iff)
  from s have ssl: "useSsl = False"
    by (simp add: demo_options_def use_ssl_field_def)
  from u have url: "url_base demo_client = ''http://127.0.0.1:3004/''"
    by (simp add: host port ssl show_nat_3004)
  from r[OF sent] have "req_url ?r = ''http://127.0.0.1:3004/notify''"
    by (simp add: url post_request_def)
  with url sent show ?thesis
    by (simp add: create_demo_options)
qed

text \<open>
  \<^bold>\<open>C5\<close>. \<open>processWatch\<close> and \<open>processUnwatch\<close> replace a falsy pid by the
  id of the current process. If the pid is then no positive integer the call fails with
  \<^verbatim>\<open>Invalid process id\<close> and no network event; any request that is sent carries the
  pid after substitution, a positive integer. If the pid after substitution is a positive
  integer and the other arguments are valid, each operation sends its request, and the
  request carries that pid: a falsy pid is accepted whenever the id of the process is valid.
\<close>

theorem pid_defaulting:
  assumes "pid' = (if truthy pid then pid else process_pid proc)"
  shows "(\<not> positive_integer pid' \<longrightarrow>
            processWatch proc fetch c pid name severity channel
              = (Inl (Error ''Invalid process id''), [])
          \<and> processUnwatch proc fetch c pid channel
              = (Inl (Error ''Invalid process id''), []))
       \<and> (\<forall>r. Fetch r \<in> set (snd (processWatch proc fetch c pid name severity channel)) \<longrightarrow>
              positive_integer pid' \<and> body_field r ''pid'' = pid')
       \<and> (\<forall>r. Fetch r \<in> set (snd (processUnwatch proc fetch c pid channel)) \<longrightarrow>
              positive_integer pid' \<and> body_field r ''pid'' = pid')
       \<and> (positive_integer pid' \<and> (\<not> truthy severity \<or> known_severity severity)
            \<and> \<not> (truthy channel \<and> typeof channel \<noteq> ''string'') \<longrightarrow>
            (\<exists>r rest. snd (processWatch proc fetch c pid name severity channel) = Fetch r # rest
               \<and> req_url r = url_base c @ ''process/watch''
               \<and> body_field r ''pid'' = pid'))
       \<and> (positive_integer pid' \<and> \<not> (truthy channel \<and> typeof channel \<noteq> ''string'') \<longrightarrow>
            (\<exists>r rest. snd (processUnwatch proc fetch c pid channel) = Fetch r # rest
               \<and> req_url r = url_base c @ ''process/unwatch''
               \<and> body_field r ''pid'' = pid'))"
proof -
  have reject: "\<not> positive_integer pid' \<longrightarrow>
            processWatch proc fetch c pid name severity channel
              = (Inl (Error ''Invalid process id''), [])
          \<and> processUnwatch proc fetch c pid channel
              = (Inl (Error ''Invalid process id''), [])"
    unfolding assms by (simp add: processWatch_eq processUnwatch_eq Let_def)
  have carried_watch:
    "\<forall>r. Fetch r \<in> set (snd (processWatch proc fetch c pid name severity channel)) \<longrightarrow>
              positive_integer pid' \<and> body_field r ''pid'' = pid'"
    unfolding assms
    by (auto simp: processWatch_eq Let_def split: if_splits
        dest!: sendRequest_body[where k = "''pid''"])
  have carried_unwatch:
    "\<forall>r. Fetch r \<in> set (snd (processUnwatch proc fetch c pid channel)) \<longrightarrow>
              positive_integer pid' \<and> body_field r ''pid'' = pid'"
    unfolding assms
    by (auto simp: processUnwatch_eq Let_def split: if_splits
        dest!: sendRequest_body[where k = "''pid''"])
  have sent_watch:
    "positive_integer pid' \<and> (\<not> truthy severity \<or> known_severity severity)
            \<and> \<not> (truthy channel \<and> typeof channel \<noteq> ''string'') \<longrightarrow>
            (\<exists>r rest. snd (processWatch proc fetch c pid name severity channel) = Fetch r # rest
               \<and> req_url r = url_base c @ ''process/watch''
               \<and> body_field r ''pid'' = pid')"
    unfolding assms
    using processWatch_sends[of pid proc severity channel fetch c name]
    by (auto simp: bad_channel_def)
  have sent_unwatch:
    "positive_integer pid' \<and> \<not> (truthy channel \<and> typeof channel \<noteq> ''string'') \<longrightarrow>
            (\<exists>r rest. snd (processUnwatch proc fetch c pid channel) = Fetch r # rest
               \<and> req_url r = url_base c @ ''process/unwatch''
               \<and> body_field r ''pid'' = pid')"
    unfolding assms
    using processUnwatch_sends[of pid proc channel fetch c]
    by (auto simp: bad_channel_def)
  from reject carried_watch carried_unwatch sent_watch sent_unwatch show ?thesis
    by (intro conjI)
qed

text \<open>\<^verbatim>\<open>processWatch(0, "x")\<close> and \<^verbatim>\<open>processUnwatch(0)\<close> send the id of the
  process, and \<^verbatim>\<open>1.5\<close> is rejected.\<close>

theorem pid_defaulting_witness:
  "\<not> positive_integer (JNum (Fin (3 / 2)))
   \<and> processUnwatch demo_process server_ok demo_client (JNum (Fin (3 / 2))) JUndefined
       = (Inl (Error ''Invalid process id''), [])
   \<and> \<not> truthy (JNum (Fin 0)) \<and> positive_integer (process_pid demo_process)
   \<and> snd (processWatch demo_process server_ok demo_client (JNum (Fin 0)) (JStr ''x'')
            JUndefined JUndefined)
       = [Fetch (post_request demo_client ''process/watch''
            (JObj [(''pid'', JNum (Fin 4242)), (''name'', JStr ''x''),
                   (''channel'', JStr ''default''), (''severity'', JStr ''error'')]))]
   \<and> body_field (post_request demo_client ''process/watch''
        (JObj [(''pid'', JNum (Fin 4242)), (''name'', JStr ''x''),
               (''channel'', JStr ''default''), (''severity'', JStr ''error'')])) ''pid''
       = JNum (Fin 4242)
   \<and> snd (processUnwatch demo_process server_ok demo_client (JNum (Fin 0)) JUndefined)
       = [Fetch (post_request demo_client ''process/unwatch''
            (JObj [(''pid'', JNum (Fin 4242)), (''channel'', JStr ''default'')]))]
   \<and> body_field (post_request demo_client ''process/unwatch''
        (JObj [(''pid'', JNum (Fin 4242)), (''channel'', JStr ''default'')])) ''pid''
       = JNum (Fin 4242)"
proof -
  have "\<lfloor>3 / 2 :: rat\<rfloor> = 1"
    by (simp add: floor_eq_iff)
  then have bad: "\<not> positive_integer (JNum (Fin (3 / 2)))"
    by (simp add: positive_integer_def is_integer_def)
  have watch: "snd (processWatch demo_process server_ok demo_client (JNum (Fin 0)) (JStr ''x'')
            JUndefined JUndefined)
       = [Fetch (post_request demo_client ''process/watch''
            (JObj [(''pid'', JNum (Fin 4242)), (''name'', JStr ''x''),
                   (''channel'', JStr ''default''), (''severity'', JStr ''error'')]))]"
    by (simp add: processWatch_eq demo_process_def bad_channel_def resolve_channel_def
        server_ok_send)
       (simp add: demo_client_def)
  have unwatch: "snd (processUnwatch demo_process server_ok demo_client (JNum (Fin 0)) JUndefined)
       = [Fetch (post_request demo_client ''process/unwatch''
            (JObj [(''pid'', JNum (Fin 4242)), (''channel'', JStr ''default'')]))]"
    by (simp add: processUnwatch_eq demo_process_def bad_channel_def resolve_channel_def
        server_ok_send)
       (simp add: demo_client_def)
  from pid_defaulting[of "JNum (Fin (3 / 2))" "JNum (Fin (3 / 2))" demo_process server_ok
      demo_client "JStr ''x''" JUndefined JUndefined]
    pid_defaulting[of "JNum (Fin 4242)" "JNum (Fin 0)" demo_process server_ok
      demo_client "JStr ''x''" JUndefined JUndefined]
    bad watch unwatch
  show ?thesis
    by (auto simp: demo_process_def)
qed

text \<open>
  \<^bold>\<open>C6\<close>, as stated, asks that every provided severity other than \<^verbatim>\<open>error\<close>,
  \<^verbatim>\<open>warn\<close> and \<^verbatim>\<open>info\<close> makes \<open>processWatch\<close> fail before any network
  call. The empty string is such a value, and the call goes through with severity
  \<^verbatim>\<open>error\<close>: \<open>validateSeverity\<close> returns the default for every falsy value.
\<close>

theorem severity_other_value_counterexample:
  "\<not> known_severity (JStr [])
   \<and> processWatch demo_process server_ok demo_client (JNum (Fin 77)) (JStr ''x'') (JStr []) JUndefined
       = (Inr JUndefined,
          [Fetch (post_request demo_client ''process/watch''
             (JObj [(''pid'', JNum (Fin 77)), (''name'', JStr ''x''),
                    (''channel'', JStr ''default''), (''severity'', JStr ''error'')]))])"
  by (simp add: known_severity_def processWatch_eq bad_channel_def resolve_channel_def
      sendRequest_200[of server_ok _ _ _ "\<lparr> status = 200, body_text = Some ''{}'', body_json = Inr (JObj []) \<rparr>"]
      server_ok_def no_response_opts_def demo_client_def)

text \<open>
  \<^bold>\<open>C6\<close>, amended. A falsy severity (omitted, or \<^verbatim>\<open>''\<close>, \<^verbatim>\<open>0\<close>, \<^verbatim>\<open>null\<close>,
  \<^verbatim>\<open>false\<close>, \<^verbatim>\<open>NaN\<close>) behaves as \<^verbatim>\<open>error\<close>. A truthy severity other than the
  three names makes the call fail with no network event, with \<^verbatim>\<open>Invalid severity\<close>
  when the pid is valid. Every request sent carries the severity given, or \<^verbatim>\<open>error\<close>
  for a falsy one, and it is one of the three names.
\<close>

theorem severity_contract:
  assumes "pid' = (if truthy pid then pid else process_pid proc)"
  shows "(\<not> truthy severity \<longrightarrow>
            processWatch proc fetch c pid name severity channel
              = processWatch proc fetch c pid name (JStr ''error'') channel)
       \<and> (truthy severity \<and> \<not> known_severity severity \<longrightarrow>
            snd (processWatch proc fetch c pid name severity channel) = []
          \<and> (\<exists>msg. fst (processWatch proc fetch c pid name severity channel) = Inl (Error msg))
          \<and> (positive_integer pid' \<longrightarrow>
                processWatch proc fetch c pid name severity channel
                  = (Inl (Error ''Invalid severity''), [])))
       \<and> (\<forall>r. Fetch r \<in> set (snd (processWatch proc fetch c pid name severity channel)) \<longrightarrow>
              body_field r ''severity'' = (if truthy severity then severity else JStr ''error'')
            \<and> known_severity (body_field r ''severity''))"
  unfolding assms
  by (auto simp: processWatch_eq Let_def known_severity_def split: if_splits
      dest!: sendRequest_body[where k = "''severity''"])

theorem severity_contract_witness:
  "\<not> truthy (JNum (Fin 0))
   \<and> processWatch demo_process server_ok demo_client (JNum (Fin 77)) (JStr ''x'') (JNum (Fin 0)) JUndefined
       = processWatch demo_process server_ok demo_client (JNum (Fin 77)) (JStr ''x'') (JStr ''error'') JUndefined
   \<and> truthy (JStr ''bogus'') \<and> \<not> known_severity (JStr ''bogus'')
   \<and> positive_integer (JNum (Fin 77))
   \<and> processWatch demo_process server_ok demo_client (JNum (Fin 77)) (JStr ''x'') (JStr ''bogus'') JUndefined
       = (Inl (Error ''Invalid severity''), [])
   \<and> Fetch (post_request demo_client ''process/watch''
        (JObj [(''pid'', JNum (Fin 77)), (''name'', JStr ''x''),
               (''channel'', JStr ''default''), (''severity'', JStr ''error'')]))
       \<in> set (snd (processWatch demo_process server_ok demo_client (JNum (Fin 77)) (JStr ''x'')
                      (JNum (Fin 0)) JUndefined))
   \<and> body_field (post_request demo_client ''process/watch''
        (JObj [(''pid'', JNum (Fin 77)), (''name'', JStr ''x''),
               (''channel'', JStr ''default''), (''severity'', JStr ''error'')])) ''severity''
       = JStr ''error''"
proof -
  have sent: "Fetch (post_request demo_client ''process/watch''
        (JObj [(''pid'', JNum (Fin 77)), (''name'', JStr ''x''),
               (''channel'', JStr ''default''), (''severity'', JStr ''error'')]))
       \<in> set (snd (processWatch demo_process server_ok demo_client (JNum (Fin 77)) (JStr ''x'')
                      (JNum (Fin 0)) JUndefined))"
    by (simp add: processWatch_eq bad_channel_def resolve_channel_def sendRequest_sends)
       (simp add: demo_client_def sendRequest_sends)
  from severity_contract[of "JNum (Fin 77)" "JNum (Fin 77)" demo_process "JNum (Fin 0)"
      server_ok demo_client "JStr ''x''" JUndefined]
    severity_contract[of "JNum (Fin 77)" "JNum (Fin 77)" demo_process "JStr ''bogus''"
      server_ok demo_client "JStr ''x''" JUndefined]
    sent
  show ?thesis
    by (auto simp: known_severity_def)
qed

text \<open>
  \<^bold>\<open>C7\<close>, as stated, asks that every public operation fails when its channel is given
  and is no string. \<open>error\<close> with the empty message returns before it looks at the
  channel, and resolves.
\<close>

theorem channel_not_string_counterexample:
  "truthy (JNum (Fin 5)) \<and> typeof (JNum (Fin 5)) \<noteq> ''string''
   \<and> error server_ok demo_client (JStr []) (JNum (Fin 5)) = (Inr JUndefined, [])"
  by (simp add: error_def notify_eq)

text \<open>
  \<^bold>\<open>C7\<close>, amended. For every public operation with a channel argument: when the channel
  is falsy, every request sent carries the default channel; when it is truthy and no
  string, there is no network event, and the call fails, except that \<open>error\<close>,
  \<open>warn\<close> and \<open>info\<close> with the empty message resolve with no value. In particular
  \<open>error\<close> with a non-empty message and no channel sends a request whose channel is
  the default channel and whose severity is \<^verbatim>\<open>error\<close>.
\<close>

theorem channel_contract:
  assumes "call_channel call = Some channel"
  shows "(\<not> truthy channel \<longrightarrow>
            (\<forall>r. Fetch r \<in> set (snd (invoke proc fetch c call)) \<longrightarrow>
               body_field r ''channel'' = default_channel c))
       \<and> (truthy channel \<and> typeof channel \<noteq> ''string'' \<longrightarrow>
            snd (invoke proc fetch c call) = []
          \<and> (if call_message call = Some (JStr [])
             then fst (invoke proc fetch c call) = Inr JUndefined
             else \<exists>msg. fst (invoke proc fetch c call) = Inl (Error msg)))
       \<and> (m \<noteq> [] \<longrightarrow>
            (\<exists>r rest. snd (error fetch c (JStr m) JUndefined) = Fetch r # rest
               \<and> body_field r ''channel'' = default_channel c
               \<and> body_field r ''severity'' = JStr ''error''))"
proof (intro conjI impI allI)
  fix r
  assume "\<not> truthy channel" "Fetch r \<in> set (snd (invoke proc fetch c call))"
  with invoke_channel[OF assms, of r proc fetch c]
  show "body_field r ''channel'' = default_channel c"
    by (simp add: resolve_channel_def)
next
  assume "truthy channel \<and> typeof channel \<noteq> ''string''"
  then have b: "bad_channel channel"
    by (simp add: bad_channel_def)
  from invoke_bad_channel[OF assms b]
  show "snd (invoke proc fetch c call) = []"
    and "if call_message call = Some (JStr [])
         then fst (invoke proc fetch c call) = Inr JUndefined
         else \<exists>msg. fst (invoke proc fetch c call) = Inl (Error msg)"
    by simp_all
next
  let ?body = "JObj [(''message'', JStr m), (''channel'', default_channel c),
      (''severity'', JStr ''error'')]"
  assume "m \<noteq> []"
  then have e: "error fetch c (JStr m) JUndefined
      = await_void (sendRequest fetch c ''notify'' ?body no_response_opts)"
    by (simp add: error_def notify_eq bad_channel_def resolve_channel_def)
  from sendRequest_events[of fetch c "''notify''" ?body no_response_opts]
  obtain rest where "snd (sendRequest fetch c ''notify'' ?body no_response_opts)
      = Fetch (post_request c ''notify'' ?body) # rest"
    by blast
  then show "\<exists>r rest. snd (error fetch c (JStr m) JUndefined) = Fetch r # rest
      \<and> body_field r ''channel'' = default_channel c \<and> body_field r ''severity'' = JStr ''error''"
    by (simp add: e body_field_def post_request_def)
qed

theorem channel_contract_witness:
  "call_channel (CallProcessUnwatch (JNum (Fin 77)) (JBool True)) = Some (JBool True)
   \<and> truthy (JBool True) \<and> typeof (JBool True) \<noteq> ''string''
   \<and> invoke demo_process server_ok demo_client (CallProcessUnwatch (JNum (Fin 77)) (JBool True))
       = (Inl (Error ''Invalid channel''), [])
   \<and> call_channel (CallError (JStr ''msg'') JNull) = Some JNull \<and> \<not> truthy JNull
   \<and> Fetch (post_request demo_client ''notify''
        (JObj [(''message'', JStr ''msg''), (''channel'', JStr ''default''),
               (''severity'', JStr ''error'')]))
       \<in> set (snd (invoke demo_process server_ok demo_client (CallError (JStr ''msg'') JNull)))
   \<and> body_field (post_request demo_client ''notify''
        (JObj [(''message'', JStr ''msg''), (''channel'', JStr ''default''),
               (''severity'', JStr ''error'')])) ''channel'' = default_channel demo_client"
proof -
  let ?r = "post_request demo_client ''notify''
        (JObj [(''message'', JStr ''msg''), (''channel'', JStr ''default''),
               (''severity'', JStr ''error'')])"
  have sent: "Fetch ?r
      \<in> set (snd (invoke demo_process server_ok demo_client (CallError (JStr ''msg'') JNull)))"
    by (simp add: error_def notify_eq bad_channel_def resolve_channel_def sendRequest_sends)
       (simp add: demo_client_def sendRequest_sends)
  have unwatch: "invoke demo_process server_ok demo_client
      (CallProcessUnwatch (JNum (Fin 77)) (JBool True)) = (Inl (Error ''Invalid channel''), [])"
    by (simp add: processUnwatch_eq bad_channel_def)
  from channel_contract[of "CallProcessUnwatch (JNum (Fin 77)) (JBool True)" "JBool True"
      demo_process server_ok demo_client "''msg''"]
    channel_contract[of "CallError (JStr ''msg'') JNull" JNull
      demo_process server_ok demo_client "''msg''"]
    sent unwatch
  show ?thesis
    by simp
qed

text \<open>
  \<^bold>\<open>C8\<close>. When the POST of \<open>sendRequest\<close> is answered with status 200: with a
  truthy \<^verbatim>\<open>no_response\<close> option the result is \<^verbatim>\<open>undefined\<close> and the body is not
  read; otherwise the body is parsed as JSON and the outcome of the parse is the result.
\<close>

theorem sendRequest_success_path:
  assumes "fetch (post_request c url body) = Inr resp"
    and "status resp = 200"
  shows "(truthy options \<and> truthy (get_prop options ''no_response'') \<longrightarrow>
            sendRequest fetch c url body options
              = (Inr JUndefined, [Fetch (post_request c url body)]))
       \<and> (\<not> (truthy options \<and> truthy (get_prop options ''no_response'')) \<longrightarrow>
            sendRequest fetch c url body options
              = (body_json resp, [Fetch (post_request c url body), ReadJson]))"
  using sendRequest_200[of fetch c url body resp options] assms by simp

theorem sendRequest_success_path_witness:
  "server_ok (post_request demo_client ''notify'' (JObj [])) =
     Inr \<lparr> status = 200, body_text = Some ''{}'', body_json = Inr (JObj []) \<rparr>
   \<and> sendRequest server_ok demo_client ''notify'' (JObj []) (JObj [(''no_response'', JBool True)])
       = (Inr JUndefined, [Fetch (post_request demo_client ''notify'' (JObj []))])
   \<and> sendRequest server_ok demo_client ''notify'' (JObj []) JUndefined
       = (Inr (JObj []), [Fetch (post_request demo_client ''notify'' (JObj [])), ReadJson])"
proof -
  let ?resp = "\<lparr> status = 200, body_text = Some ''{}'', body_json = Inr (JObj []) \<rparr>"
  have resp: "server_ok (post_request demo_client ''notify'' (JObj [])) = Inr ?resp"
    by (simp add: server_ok_def)
  have ok: "status ?resp = 200"
    by simp
  from sendRequest_success_path[of server_ok demo_client "''notify''" "JObj []" ?resp
      "JObj [(''no_response'', JBool True)]"]
    sendRequest_success_path[of server_ok demo_client "''notify''" "JObj []" ?resp JUndefined]
    resp ok
  show ?thesis
    by simp
qed

text \<open>
  \<^bold>\<open>C9\<close>. \<open>getDefaultChannel\<close> of a created client is the non-empty string given as
  \<^verbatim>\<open>defaultChannel\<close>; in any sequence of calls on the client, whatever the server
  answers, each call of it returns that string and makes no network event.
\<close>

theorem getDefaultChannel_constant:
  assumes "create options = Inr c"
  shows "\<exists>s. s \<noteq> [] \<and> get_prop options ''defaultChannel'' = JStr s
           \<and> getDefaultChannel c = JStr s
           \<and> (\<forall>proc fetch calls. \<forall>i < length calls. calls ! i = CallGetDefaultChannel \<longrightarrow>
                 map (invoke proc fetch c) calls ! i = (Inr (JStr s), []))"
proof -
  from assms obtain cfg where v: "validate_config options = Inr cfg" and c: "c = client_of cfg"
    by (rule create_Inr)
  from validate_config_Inr(5)[OF v]
  have s: "get_prop options ''defaultChannel'' = JStr (cfg_defaultChannel cfg)"
    "cfg_defaultChannel cfg \<noteq> []"
    by (simp_all add: string_field_Some)
  have g: "getDefaultChannel c = JStr (cfg_defaultChannel cfg)"
    by (simp add: c getDefaultChannel_def client_of_def)
  from s g show ?thesis
    by auto
qed

theorem getDefaultChannel_constant_witness:
  "create demo_options = Inr demo_client
   \<and> getDefaultChannel demo_client = JStr ''default''
   \<and> map (invoke demo_process server_boom demo_client)
        [CallGetDefaultChannel, CallError (JStr ''msg'') JUndefined, CallGetDefaultChannel] ! 2
       = (Inr (JStr ''default''), [])"
proof -
  from getDefaultChannel_constant[OF create_demo_options] obtain s where
    s: "get_prop demo_options ''defaultChannel'' = JStr s"
    and g: "getDefaultChannel demo_client = JStr s"
    and a: "\<And>proc fetch calls i. i < length calls \<Longrightarrow> calls ! i = CallGetDefaultChannel \<Longrightarrow>
                 map (invoke proc fetch demo_client) calls ! i = (Inr (JStr s), [])"
    by blast
  from s have "s = ''default''"
    by (simp add: demo_options_def)
  with g a[of 2 "[CallGetDefaultChannel, CallError (JStr ''msg'') JUndefined, CallGetDefaultChannel]"
      demo_process server_boom]
  show ?thesis
    by (simp add: create_demo_options)
qed



end
